theory Spec2Isabelle
  imports Complex_Main "HOL-Library.Log_Nat"
begin

section \<open>JavaScript numbers and their text\<close>

text \<open>
  Both scripts compute with JavaScript numbers and write them into the page as text.
  A number is an IEEE 754 double: a finite value is given by the rational it stands
  for, and the non-finite results are values of their own. Every arithmetic operation
  computes the exact result and rounds it to the nearest double (\<open>to_double\<close>), so
  that \<open>7 / 20\<close> is the double just below 0.35 and \<open>350 / 5000 * 100\<close> is the double
  just above 7, as in the scripts. The sign of a zero is not kept: no operation of the
  scripts divides by a computed value, and every other operation used here treats both
  zeros alike.
\<close>

datatype jsnum = Fin rat | PosInf | NegInf | NaN

text \<open>Rounding to the nearest integer, a half to the even neighbour.\<close>

definition round_even :: "rat \<Rightarrow> int" where
  "round_even x =
     (let f = \<lfloor>x\<rfloor>; r = x - of_int f
      in if r < 1 / 2 then f else if 1 / 2 < r then f + 1 else if even f then f else f + 1)"

text \<open>The binary exponent of a positive number: the \<open>e\<close> with \<open>2^e \<le> a < 2^(e+1)\<close>.\<close>

definition ilog2 :: "rat \<Rightarrow> int" where
  "ilog2 a = (if 1 \<le> a then bitlen \<lfloor>a\<rfloor> - 1 else - bitlen (\<lceil>1 / a\<rceil> - 1))"

text \<open>
  Rounding an exact result to a double (round to nearest, ties to even): 53 significant
  bits at the number's own exponent, which is at least \<open>-1022\<close> (below that the spacing
  stays \<open>2^-1074\<close>, the subnormal numbers), and infinity when the rounded magnitude
  reaches \<open>2^1024\<close>.
\<close>

definition to_double :: "rat \<Rightarrow> jsnum" where
  "to_double x =
     (if x = 0 then Fin 0
      else let a = \<bar>x\<bar>;
               e = max (ilog2 a) (- 1022);
               q = 2 powi (e - 52);
               r = of_int (round_even (a / q)) * q
           in if 2 ^ 1024 \<le> r then (if 0 < x then PosInf else NegInf)
              else Fin (if 0 < x then r else - r))"

text \<open>\<open>a / b\<close> on two finite operands.\<close>

definition js_div :: "rat \<Rightarrow> rat \<Rightarrow> jsnum" where
  "js_div a b =
     (if b = 0 then (if a = 0 then NaN else if 0 < a then PosInf else NegInf)
      else to_double (a / b))"

text \<open>\<open>x * c\<close> with a finite right operand.\<close>

fun js_mul :: "jsnum \<Rightarrow> rat \<Rightarrow> jsnum" where
  "js_mul (Fin x) c = to_double (x * c)"
| "js_mul PosInf c = (if c = 0 then NaN else if 0 < c then PosInf else NegInf)"
| "js_mul NegInf c = (if c = 0 then NaN else if 0 < c then NegInf else PosInf)"
| "js_mul NaN c = NaN"

text \<open>\<open>x + y\<close>.\<close>

fun js_add :: "jsnum \<Rightarrow> jsnum \<Rightarrow> jsnum" where
  "js_add (Fin x) (Fin y) = to_double (x + y)"
| "js_add NaN y = NaN"
| "js_add x NaN = NaN"
| "js_add PosInf NegInf = NaN"
| "js_add NegInf PosInf = NaN"
| "js_add PosInf y = PosInf"
| "js_add NegInf y = NegInf"
| "js_add (Fin x) y = y"

text \<open>\<open>x / n\<close> where \<open>n\<close> is a count.\<close>

fun js_div_count :: "jsnum \<Rightarrow> nat \<Rightarrow> jsnum" where
  "js_div_count (Fin x) n = js_div x (of_nat n)"
| "js_div_count PosInf n = PosInf"
| "js_div_count NegInf n = NegInf"
| "js_div_count NaN n = NaN"

text \<open>\<open>x > c\<close>, \<open>x < c\<close> and \<open>x >= c\<close> against a finite constant; every comparison
  with NaN is false.\<close>

fun js_gt :: "jsnum \<Rightarrow> rat \<Rightarrow> bool" where
  "js_gt (Fin x) c = (c < x)"
| "js_gt PosInf c = True"
| "js_gt NegInf c = False"
| "js_gt NaN c = False"

fun js_lt :: "jsnum \<Rightarrow> rat \<Rightarrow> bool" where
  "js_lt (Fin x) c = (x < c)"
| "js_lt PosInf c = False"
| "js_lt NegInf c = True"
| "js_lt NaN c = False"

fun js_ge :: "jsnum \<Rightarrow> rat \<Rightarrow> bool" where
  "js_ge (Fin x) c = (c \<le> x)"
| "js_ge PosInf c = True"
| "js_ge NegInf c = False"
| "js_ge NaN c = False"

definition digit_char :: "nat \<Rightarrow> char" where
  "digit_char d = ''0123456789'' ! d"

fun decimal :: "nat \<Rightarrow> string" where
  "decimal n = (if n < 10 then [digit_char n] else decimal (n div 10) @ [digit_char (n mod 10)])"

declare decimal.simps [simp del]

text \<open>
  The text of a finite number (ECMAScript \<open>Number::toString\<close>). A whole number below
  \<open>2^53\<close> in magnitude is written as its decimal digits: up to there every whole
  number is a double, so no shorter digit string reads back as the same number. The
  digits chosen for any other number (the shortest that read back as the same double,
  with exponent notation from \<open>10^21\<close>) are a parameter \<open>fmt\<close> of the model.
\<close>

definition Number_toString :: "(rat \<Rightarrow> string) \<Rightarrow> rat \<Rightarrow> string" where
  "Number_toString fmt x =
     (if of_int \<lfloor>x\<rfloor> = x \<and> \<bar>x\<bar> < 2 ^ 53
      then (if x < 0 then ''-'' else '''') @ decimal (nat \<bar>\<lfloor>x\<rfloor>\<bar>)
      else fmt x)"

fun jsnum_toString :: "(rat \<Rightarrow> string) \<Rightarrow> jsnum \<Rightarrow> string" where
  "jsnum_toString fmt (Fin x) = Number_toString fmt x"
| "jsnum_toString fmt PosInf = ''Infinity''"
| "jsnum_toString fmt NegInf = ''-Infinity''"
| "jsnum_toString fmt NaN = ''NaN''"

text \<open>
  \<open>x.toFixed(1)\<close> on a finite number (ECMAScript \<open>Number.prototype.toFixed\<close>): the sign
  is split off; a magnitude of \<open>10^21\<close> or more is written by \<open>Number::toString\<close>;
  otherwise \<open>n\<close> is the integer with \<open>n / 10\<close> nearest to the exact value of the
  magnitude (the larger one on a tie), its digits are padded to two and the point is
  put before the last digit. A number that is not finite is written by
  \<open>Number::toString\<close>.
\<close>

definition tenths :: "rat \<Rightarrow> nat" where
  "tenths x = nat \<lfloor>10 * x + 1 / 2\<rfloor>"

definition toFixed1 :: "(rat \<Rightarrow> string) \<Rightarrow> rat \<Rightarrow> string" where
  "toFixed1 fmt x =
     (let s = (if x < 0 then ''-'' else '''');
          x' = (if x < 0 then - x else x)
      in if 10 ^ 21 \<le> x' then s @ Number_toString fmt x'
         else let m = decimal (tenths x');
                  m' = (if length m \<le> 1 then replicate (2 - length m) (CHR ''0'') @ m else m);
                  k = length m'
              in s @ take (k - 1) m' @ ''.'' @ drop (k - 1) m')"

fun jsnum_toFixed1 :: "(rat \<Rightarrow> string) \<Rightarrow> jsnum \<Rightarrow> string" where
  "jsnum_toFixed1 fmt (Fin x) = toFixed1 fmt x"
| "jsnum_toFixed1 fmt PosInf = ''Infinity''"
| "jsnum_toFixed1 fmt NegInf = ''-Infinity''"
| "jsnum_toFixed1 fmt NaN = ''NaN''"

text \<open>\<open>Math.round(x)\<close> on a finite number: the nearest integer, halves upwards.\<close>

definition Math_round :: "rat \<Rightarrow> rat" where
  "Math_round x = of_int \<lfloor>x + 1 / 2\<rfloor>"

section \<open>Tank gauge (tanker_weight_log.js)\<close>

text \<open>A row of the list query: only the field \<open>weight\<close> is fetched.\<close>

record weight_log =
  weight :: rat

text \<open>The four properties of the page that \<open>updateTankGraphic\<close> writes.\<close>

record gauge =
  liquid_height :: string
  weight_display :: string
  device_label :: string
  liquid_color :: string

text \<open>\<open>(weight / maxCapacity) * 100\<close>, then \<open>if (fillPercent > 100) fillPercent = 100\<close>.\<close>

definition fillPercent :: "rat \<Rightarrow> rat \<Rightarrow> jsnum" where
  "fillPercent w maxCapacity =
     (let p = js_mul (js_div w maxCapacity) 100
      in if js_gt p 100 then Fin 100 else p)"

text \<open>\<open>fillPercent < 10 ? '#f44336' : '#2196F3'\<close>\<close>

definition fill_color :: "jsnum \<Rightarrow> string" where
  "fill_color p = (if js_lt p 10 then ''#f44336'' else ''#2196F3'')"

text \<open>
  The continuation of the list query, applied to the rows it returned (at most one,
  the latest). With no row the page is left as it is.
\<close>

definition updateTankGraphic ::
  "(rat \<Rightarrow> string) \<Rightarrow> string \<Rightarrow> rat \<Rightarrow> weight_log list \<Rightarrow> gauge \<Rightarrow> gauge" where
  "updateTankGraphic fmt deviceId maxCapacity records g =
     (case records of
        [] \<Rightarrow> g
      | r # _ \<Rightarrow>
          (let p = fillPercent (weight r) maxCapacity
           in g\<lparr>liquid_height := jsnum_toString fmt p @ ''%'',
                weight_display := Number_toString fmt (weight r) @ '' kg'',
                device_label := ''Device: '' @ deviceId,
                liquid_color := fill_color p\<rparr>))"

section \<open>Stock dashboard (stock_dashboard.js)\<close>

subsection \<open>Rows and the page\<close>

text \<open>
  A row returned by the remote procedure. \<open>warehouse\<close> and \<open>custom_no_of_days\<close> may be
  missing or null (\<open>None\<close>).
\<close>

record stock_row =
  item_code :: string
  item_name :: string
  warehouse :: "string option"
  actual_qty :: rat
  reorder_level :: rat
  custom_no_of_days :: "rat option"

text \<open>
  One card of the grid: the values that fill the holes of the card template, in the
  template's order. The fixed markup around them is the same for every card.
\<close>

record card =
  card_class :: string
  route_item :: string
  name_text :: string
  badge_class :: string
  badge_text :: string
  qty_text :: string
  reorder_text :: string
  days_text :: string
  warehouse_text :: string

datatype container = EmptyState string | CardGrid "card list"

text \<open>The four summary tiles and the card container.\<close>

record dashboard =
  total_items :: string
  critical_items :: string
  healthy_items :: string
  avg_days :: string
  stock_cards_container :: container

subsection \<open>refresh_data\<close>

text \<open>The five filter controls of the page, each read with \<open>get_value()\<close>; an unset
  control has no value (\<open>None\<close>) or the empty string.\<close>

record page =
  wh_f :: "string option"
  item_f :: "string option"
  group_f :: "string option"
  status_f :: "string option"
  sort_f :: "string option"

record remote_call =
  method_name :: string
  args :: "(string \<times> string option) list"

definition refresh_data :: "page \<Rightarrow> dashboard \<Rightarrow> dashboard \<times> remote_call list" where
  "refresh_data p d =
     (d\<lparr>stock_cards_container := EmptyState ''Loading inventory data...''\<rparr>,
      [\<lparr>method_name = ''dairy.dairy.page.stock_dashboard.stock_dashboard.get_stock_data'',
        args = [(''warehouse'', wh_f p),
                (''item_code'', item_f p),
                (''item_group'', group_f p),
                (''stock_status'', status_f p),
                (''sort_order'', sort_f p)]\<rparr>])"

subsection \<open>render_data\<close>

text \<open>The counters of the \<open>forEach\<close> loop.\<close>

record totals =
  critical :: nat
  healthy :: nat
  total_days :: jsnum
  valid_day_items :: nat

definition totals0 :: totals where
  "totals0 = \<lparr>critical = 0, healthy = 0, total_days = Fin 0, valid_day_items = 0\<rparr>"

text \<open>\<open>i.custom_no_of_days && i.custom_no_of_days > 0\<close>: a missing value, null and 0 are
  falsy; any other number is then compared with 0.\<close>

definition days_divisor :: "stock_row \<Rightarrow> rat option" where
  "days_divisor i =
     (case custom_no_of_days i of
        None \<Rightarrow> None
      | Some d \<Rightarrow> if d \<noteq> 0 \<and> 0 < d then Some d else None)"

text \<open>The body of the \<open>forEach\<close> loop.\<close>

definition tally :: "totals \<Rightarrow> stock_row \<Rightarrow> totals" where
  "tally t i =
     (let t1 = (if actual_qty i \<le> reorder_level i
                then t\<lparr>critical := critical t + 1\<rparr>
                else t\<lparr>healthy := healthy t + 1\<rparr>)
      in case days_divisor i of
           Some d \<Rightarrow> t1\<lparr>total_days := js_add (total_days t1) (js_div (actual_qty i) d),
                        valid_day_items := valid_day_items t1 + 1\<rparr>
         | None \<Rightarrow> t1)"

definition forEach_tally :: "stock_row list \<Rightarrow> totals" where
  "forEach_tally data = foldl tally totals0 data"

text \<open>\<open>valid_day_items ? (total_days / valid_day_items).toFixed(1) : 0\<close>, as the text
  that is written into the tile.\<close>

definition avg_days_text :: "(rat \<Rightarrow> string) \<Rightarrow> totals \<Rightarrow> string" where
  "avg_days_text fmt t =
     (if valid_day_items t \<noteq> 0
      then jsnum_toFixed1 fmt (js_div_count (total_days t) (valid_day_items t))
      else Number_toString fmt 0)"

text \<open>The function mapped over the rows to build the cards.\<close>

definition render_card :: "(rat \<Rightarrow> string) \<Rightarrow> stock_row \<Rightarrow> card" where
  "render_card fmt i =
     (let days_remaining =
            (case days_divisor i of
               Some d \<Rightarrow> jsnum_toFixed1 fmt (js_div (actual_qty i) d)
             | None \<Rightarrow> Number_toString fmt 0);
          isCritical = (actual_qty i \<le> reorder_level i)
      in \<lparr>card_class = (if isCritical then ''critical'' else ''safe''),
          route_item = item_code i,
          name_text = item_name i,
          badge_class = (if isCritical then ''badge-critical'' else ''badge-healthy''),
          badge_text = (if isCritical then ''Critical'' else ''Healthy''),
          qty_text = Number_toString fmt (Math_round (actual_qty i)),
          reorder_text = Number_toString fmt (reorder_level i),
          days_text = days_remaining,
          warehouse_text =
            (case warehouse i of
               None \<Rightarrow> ''Multiple''
             | Some w \<Rightarrow> if w = '''' then ''Multiple'' else w)\<rparr>)"

definition render_data :: "(rat \<Rightarrow> string) \<Rightarrow> stock_row list \<Rightarrow> dashboard \<Rightarrow> dashboard" where
  "render_data fmt data d =
     (if length data = 0
      then d\<lparr>stock_cards_container := EmptyState ''No stock found.''\<rparr>
      else
        (let total = length data;
             t = forEach_tally data
         in d\<lparr>total_items := Number_toString fmt (of_nat total),
              critical_items := Number_toString fmt (of_nat (critical t)),
              healthy_items := Number_toString fmt (of_nat (healthy t)),
              avg_days := avg_days_text fmt t,
              stock_cards_container := CardGrid (map (render_card fmt) data)\<rparr>))"

text \<open>The callback of the remote call: \<open>render_data(r.message || [])\<close>.\<close>

definition callback :: "(rat \<Rightarrow> string) \<Rightarrow> stock_row list option \<Rightarrow> dashboard \<Rightarrow> dashboard" where
  "callback fmt message d =
     render_data fmt (case message of None \<Rightarrow> [] | Some rows \<Rightarrow> rows) d"

section \<open>Example inputs\<close>

text \<open>
  Two rows: the first has a positive days divisor and stock above its reorder level, the
  second has divisor 0, a warehouse, and stock exactly at its reorder level. A third
  row, on its own, has a quotient that is not a double: 7 over 20. The page starts with
  every tile at \<open>0\<close> and no card; the gauge starts blank. \<open>fmt0\<close> stands in for the
  digits of numbers that are not whole.
\<close>

definition fmt0 :: "rat \<Rightarrow> string" where
  "fmt0 x = ''?''"

definition ex_rows :: "stock_row list" where
  "ex_rows =
     [\<lparr>item_code = ''MILK-01'', item_name = ''Milk'', warehouse = None,
       actual_qty = 100, reorder_level = 20, custom_no_of_days = Some 10\<rparr>,
      \<lparr>item_code = ''CURD-02'', item_name = ''Curd'', warehouse = Some ''Stores'',
       actual_qty = 50, reorder_level = 50, custom_no_of_days = Some 0\<rparr>]"


definition dashboard0 :: dashboard where
  "dashboard0 =
     \<lparr>total_items = ''0'', critical_items = ''0'', healthy_items = ''0'', avg_days = ''0'',
      stock_cards_container = CardGrid []\<rparr>"

definition gauge0 :: gauge where
  "gauge0 =
     \<lparr>liquid_height = '''', weight_display = '''', device_label = '''', liquid_color = ''''\<rparr>"

section \<open>Facts about rounding to a double\<close>

lemma floor_rat_numeral:
  "\<lfloor>numeral a / numeral b :: rat\<rfloor> = numeral a div numeral b"
  by (metis floor_divide_of_int_eq of_int_numeral)

lemma round_even_nonneg: "0 \<le> x \<Longrightarrow> 0 \<le> round_even x"
  by (simp add: round_even_def Let_def)

lemma ilog2_ge1:
  assumes "1 \<le> a"
  shows "2 powi (ilog2 a) \<le> a \<and> a < 2 powi (ilog2 a + 1)"
proof -
  define m where "m = \<lfloor>a\<rfloor>"
  have m: "0 < m" using assms by (simp add: m_def)
  define k where "k = bitlen m"
  have b: "2 ^ nat (k - 1) \<le> m" "m < 2 ^ nat k"
    using bitlen_bounds [OF m] by (simp_all add: k_def)
  have k: "1 \<le> k" using m bitlen_eq_zero_iff [of m] bitlen_nonneg [of m] by (simp add: k_def)
  have i: "ilog2 a = k - 1" using assms by (simp add: ilog2_def k_def m_def)
  have "(of_int (2 ^ nat (k - 1)) :: rat) \<le> of_int m" using b(1) by (simp only: of_int_le_iff)
  also have "\<dots> \<le> a" by (simp add: m_def)
  finally have lo: "2 powi (k - 1) \<le> a" using k by (simp add: power_int_def)
  have "a < of_int (m + 1)" unfolding m_def by linarith
  also have "\<dots> \<le> of_int (2 ^ nat k)"
  proof -
    have "m + 1 \<le> 2 ^ nat k" using b(2) by simp
    then show ?thesis by (simp only: of_int_le_iff)
  qed
  finally have hi: "a < 2 powi k" using k by (simp add: power_int_def)
  from lo hi i show ?thesis by simp
qed

lemma ilog2_lt1:
  assumes "0 < a" "a < 1"
  shows "2 powi (ilog2 a) \<le> a \<and> a < 2 powi (ilog2 a + 1)"
proof -
  define c where "c = \<lceil>1 / a\<rceil>"
  have b1: "1 < 1 / a" using assms by simp
  then have c: "0 < c - 1" unfolding c_def by linarith
  define k where "k = bitlen (c - 1)"
  have b: "2 ^ nat (k - 1) \<le> c - 1" "c - 1 < 2 ^ nat k"
    using bitlen_bounds [OF c] by (simp_all add: k_def)
  have k: "1 \<le> k"
    using c bitlen_eq_zero_iff [of "c - 1"] bitlen_nonneg [of "c - 1"] by (simp add: k_def)
  have i: "ilog2 a = - k" using assms by (simp add: ilog2_def k_def c_def)
  have "1 / a \<le> of_int c" by (simp add: c_def)
  also have "\<dots> \<le> of_int (2 ^ nat k)"
  proof -
    have "c \<le> 2 ^ nat k" using b(2) by simp
    then show ?thesis by (simp only: of_int_le_iff)
  qed
  finally have "1 / a \<le> 2 ^ nat k" by simp
  then have "1 \<le> 2 ^ nat k * a" using assms by (simp add: field_simps)
  then have lo: "2 powi (- k) \<le> a" using k by (simp add: power_int_def field_simps)
  have "(of_int (2 ^ nat (k - 1)) :: rat) \<le> of_int (c - 1)" using b(1) by (simp only: of_int_le_iff)
  also have "\<dots> < 1 / a" unfolding c_def by linarith
  finally have "2 ^ nat (k - 1) < 1 / a" by simp
  then have h: "2 ^ nat (k - 1) * a < 1" using assms by (simp add: field_simps)
  have hi: "a < 2 powi (- k + 1)"
  proof (cases "k = 1")
    case True
    then show ?thesis using assms by simp
  next
    case False
    with k have "- k + 1 < 0" by simp
    moreover have "nat (k - 1) = nat (- (- k + 1))" by simp
    ultimately show ?thesis using h by (simp add: power_int_def field_simps)
  qed
  from lo hi i show ?thesis by simp
qed

lemma ilog2_bounds: "0 < a \<Longrightarrow> 2 powi (ilog2 a) \<le> a \<and> a < 2 powi (ilog2 a + 1)"
  using ilog2_ge1 [of a] ilog2_lt1 [of a] by (cases "1 \<le> a") simp_all

lemma ilog2_unique:
  assumes "0 < a" "2 powi e \<le> a" "a < 2 powi (e + 1)"
  shows "ilog2 a = e"
proof -
  note b = ilog2_bounds [OF assms(1)]
  have "(2::rat) powi e < 2 powi (ilog2 a + 1)" using assms(2) b by simp
  then have 1: "e < ilog2 a + 1"
    using power_int_increasing [of "ilog2 a + 1" e "2::rat"] by (cases "e < ilog2 a + 1") simp_all
  have "(2::rat) powi (ilog2 a) < 2 powi (e + 1)" using assms(3) b by simp
  then have 2: "ilog2 a < e + 1"
    using power_int_increasing [of "e + 1" "ilog2 a" "2::rat"] by (cases "ilog2 a < e + 1") simp_all
  from 1 2 show ?thesis by simp
qed

text \<open>Rounding a number whose binary exponent \<open>e\<close> is known.\<close>

lemma to_double_eval:
  assumes "x \<noteq> 0" "- 1022 \<le> e" "2 powi e \<le> \<bar>x\<bar>" "\<bar>x\<bar> < 2 powi (e + 1)"
    and "r = of_int (round_even (\<bar>x\<bar> / 2 powi (e - 52))) * 2 powi (e - 52)"
    and "r < 2 ^ 1024"
  shows "to_double x = Fin (if 0 < x then r else - r)"
proof -
  have "ilog2 \<bar>x\<bar> = e" using assms(1,3,4) by (intro ilog2_unique) simp_all
  with assms(2) have m: "max (ilog2 \<bar>x\<bar>) (- 1022) = e" by simp
  have "to_double x =
      (if 2 ^ 1024 \<le> r then (if 0 < x then PosInf else NegInf)
       else Fin (if 0 < x then r else - r))"
    unfolding to_double_def Let_def m assms(5) by (simp only: assms(1) if_False)
  with assms(6) show ?thesis by simp
qed

text \<open>Rounding keeps the sign: a result that is not negative rounds to a finite number
  that is not negative, or to infinity.\<close>

lemma to_double_nonneg:
  assumes "0 \<le> x"
  shows "to_double x = PosInf \<or> (\<exists>y. to_double x = Fin y \<and> 0 \<le> y)"
proof (cases "x = 0")
  case True
  then show ?thesis by (simp add: to_double_def)
next
  case False
  with assms have x: "0 < x" by simp
  define q :: rat where "q = 2 powi (max (ilog2 \<bar>x\<bar>) (- 1022) - 52)"
  have q: "0 < q" by (simp add: q_def)
  have "0 \<le> \<bar>x\<bar> / q" using q by simp
  then have "0 \<le> round_even (\<bar>x\<bar> / q)" by (rule round_even_nonneg)
  then have "0 \<le> of_int (round_even (\<bar>x\<bar> / q)) * q" using q by simp
  then show ?thesis using x by (simp add: to_double_def Let_def q_def)
qed

lemma round_even_near: "\<bar>of_int (round_even z) - z\<bar> \<le> 1 / 2"
proof -
  show ?thesis by (auto simp add: round_even_def Let_def abs_if; linarith)
qed

text \<open>A finite result of rounding lies within half a spacing of the exact value.\<close>

lemma to_double_near:
  assumes "to_double x = Fin y" "x \<noteq> 0"
  shows "\<bar>y - x\<bar> \<le> 2 powi (max (ilog2 \<bar>x\<bar>) (- 1022) - 53)"
proof -
  define q :: rat where "q = 2 powi (max (ilog2 \<bar>x\<bar>) (- 1022) - 52)"
  define n where "n = round_even (\<bar>x\<bar> / q)"
  have q: "0 < q" by (simp add: q_def)
  have h: "2 powi (max (ilog2 \<bar>x\<bar>) (- 1022) - 53) = q / 2"
    unfolding q_def using power_int_add [of "2::rat" "max (ilog2 \<bar>x\<bar>) (- 1022) - 53" 1]
    by simp
  have y: "y = (if 0 < x then of_int n * q else - (of_int n * q))"
    using assms by (simp add: to_double_def Let_def q_def n_def split: if_splits)
  have "\<bar>of_int n - \<bar>x\<bar> / q\<bar> \<le> 1 / 2" unfolding n_def by (rule round_even_near)
  then have "\<bar>of_int n - \<bar>x\<bar> / q\<bar> * q \<le> 1 / 2 * q" using q by (simp only: mult_le_cancel_right_pos)
  moreover have "\<bar>of_int n - \<bar>x\<bar> / q\<bar> * q = \<bar>of_int n * q - \<bar>x\<bar>\<bar>"
  proof -
    have "(of_int n - \<bar>x\<bar> / q) * q = of_int n * q - \<bar>x\<bar>" using q by (simp add: field_simps)
    then show ?thesis using abs_mult_pos [of q "of_int n - \<bar>x\<bar> / q"] q by simp
  qed
  ultimately have "\<bar>of_int n * q - \<bar>x\<bar>\<bar> \<le> q / 2" by simp
  then show ?thesis unfolding h y using assms(2) by (auto simp add: abs_if split: if_splits)
qed

lemmas rounding = round_even_def Let_def floor_rat_numeral


lemma to_double_6_5: "to_double (6 / 5) = Fin (5404319552844595 / 4503599627370496)"
  using to_double_eval [of "6 / 5" 0, OF _ _ _ _ refl] by (simp add: rounding)

lemma to_double_6_5_100: "to_double (5404319552844595 / 4503599627370496 * 100) = Fin 120"
  using to_double_eval [of "5404319552844595 / 4503599627370496 * 100" 6, OF _ _ _ _ refl]
  by (simp add: rounding)

lemma to_double_1_10: "to_double (1 / 10) = Fin (3602879701896397 / 36028797018963968)"
  using to_double_eval [of "1 / 10" "- 4", OF _ _ _ _ refl] by (simp add: rounding)

lemma to_double_1_10_100: "to_double (3602879701896397 / 36028797018963968 * 100) = Fin 10"
  using to_double_eval [of "3602879701896397 / 36028797018963968 * 100" 3, OF _ _ _ _ refl]
  by (simp add: rounding)



section \<open>Facts about the text of numbers\<close>

lemma decimal_digit: "n < 10 \<Longrightarrow> decimal n = [digit_char n]"
  by (simp add: decimal.simps)

lemma decimal_more: "\<not> n < 10 \<Longrightarrow> decimal n = decimal (n div 10) @ [digit_char (n mod 10)]"
  by (subst decimal.simps) simp


lemmas digits = decimal_digit decimal_more digit_char_def






section \<open>Facts about the gauge\<close>

lemma fillPercent_range:
  assumes "0 \<le> w" "0 < m"
  shows "\<exists>p. fillPercent w m = Fin p \<and> 0 \<le> p \<and> p \<le> 100"
proof -
  have d: "js_div w m = to_double (w / m)" using assms by (simp add: js_div_def)
  have "0 \<le> w / m" using assms by simp
  then consider "to_double (w / m) = PosInf" | y where "to_double (w / m) = Fin y" "0 \<le> y"
    using to_double_nonneg by blast
  then show ?thesis
  proof cases
    case 1
    then show ?thesis by (simp add: fillPercent_def d)
  next
    case 2
    then have "0 \<le> y * 100" by simp
    then consider "to_double (y * 100) = PosInf" | z where "to_double (y * 100) = Fin z" "0 \<le> z"
      using to_double_nonneg by blast
    then show ?thesis
    proof cases
      case 1
      with 2 show ?thesis by (simp add: fillPercent_def d)
    next
      case (2 z)
      with \<open>to_double (w / m) = Fin y\<close> show ?thesis by (simp add: fillPercent_def d)
    qed
  qed
qed

lemma fillPercent_eval:
  "m \<noteq> 0 \<Longrightarrow> to_double (w / m) = Fin y \<Longrightarrow> to_double (y * 100) = Fin z \<Longrightarrow>
   fillPercent w m = Fin (if 100 < z then 100 else z)"
  by (simp add: fillPercent_def js_div_def)

lemma updateTankGraphic_reading:
  "updateTankGraphic fmt deviceId maxCapacity (r # rs) g =
     g\<lparr>liquid_height := jsnum_toString fmt (fillPercent (weight r) maxCapacity) @ ''%'',
       weight_display := Number_toString fmt (weight r) @ '' kg'',
       device_label := ''Device: '' @ deviceId,
       liquid_color := fill_color (fillPercent (weight r) maxCapacity)\<rparr>"
  by (simp add: updateTankGraphic_def Let_def)

section \<open>Facts about the loop and the cards\<close>

lemma critical_foldl:
  "critical (foldl tally t data) =
     critical t + length (filter (\<lambda>i. actual_qty i \<le> reorder_level i) data)"
  by (induction data arbitrary: t) (simp_all add: tally_def Let_def split: option.splits)

lemma healthy_foldl:
  "healthy (foldl tally t data) =
     healthy t + length (filter (\<lambda>i. \<not> actual_qty i \<le> reorder_level i) data)"
  by (induction data arbitrary: t) (simp_all add: tally_def Let_def split: option.splits)



lemma filter_split_length:
  "length (filter P xs) + length (filter (\<lambda>x. \<not> P x) xs) = length xs"
  by (induction xs) simp_all

lemma render_data_nonempty:
  "data \<noteq> [] \<Longrightarrow>
   render_data fmt data d =
     d\<lparr>total_items := Number_toString fmt (of_nat (length data)),
       critical_items := Number_toString fmt (of_nat (critical (forEach_tally data))),
       healthy_items := Number_toString fmt (of_nat (healthy (forEach_tally data))),
       avg_days := avg_days_text fmt (forEach_tally data),
       stock_cards_container := CardGrid (map (render_card fmt) data)\<rparr>"
  by (simp add: render_data_def Let_def)

lemma badge_text_render_card:
  "badge_text (render_card fmt i) =
     (if actual_qty i \<le> reorder_level i then ''Critical'' else ''Healthy'')"
  by (simp add: render_card_def Let_def)

lemma card_class_render_card:
  "card_class (render_card fmt i) =
     (if actual_qty i \<le> reorder_level i then ''critical'' else ''safe'')"
  by (simp add: render_card_def Let_def)



lemma critical_ex_rows: "critical (forEach_tally ex_rows) = 1"
  and healthy_ex_rows: "healthy (forEach_tally ex_rows) = 1"
  unfolding forEach_tally_def critical_foldl healthy_foldl
  by (simp_all add: totals0_def ex_rows_def)

lemma ex_rows_length: "length ex_rows = 2" and ex_rows_nonempty: "ex_rows \<noteq> []"
  by (simp_all add: ex_rows_def)

section \<open>The examples, computed\<close>

lemma fillPercent_6000: "fillPercent 6000 5000 = Fin 100"
proof -
  have a: "to_double (6000 / 5000) = Fin (5404319552844595 / 4503599627370496)"
    using to_double_6_5 by simp
  from fillPercent_eval [OF _ a to_double_6_5_100] show ?thesis by simp
qed

lemma fillPercent_500: "fillPercent 500 5000 = Fin 10"
proof -
  have a: "to_double (500 / 5000) = Fin (3602879701896397 / 36028797018963968)"
    using to_double_1_10 by simp
  from fillPercent_eval [OF _ a to_double_1_10_100] show ?thesis by simp
qed

lemma fillPercent_499: "fillPercent 499 5000 = Fin (2809120267572347 / 281474976710656)"
proof -
  have a: "to_double (499 / 5000) = Fin (898918485623151 / 9007199254740992)"
    using to_double_eval [of "499 / 5000" "- 4", OF _ _ _ _ refl] by (simp add: rounding)
  have b: "to_double (898918485623151 / 9007199254740992 * 100)
           = Fin (2809120267572347 / 281474976710656)"
    using to_double_eval [of "898918485623151 / 9007199254740992 * 100" 3, OF _ _ _ _ refl]
    by (simp add: rounding)
  from fillPercent_eval [OF _ a b] show ?thesis by simp
qed

lemma fillPercent_350: "fillPercent 350 5000 = Fin (7881299347898369 / 1125899906842624)"
proof -
  have a: "to_double (350 / 5000) = Fin (1261007895663739 / 18014398509481984)"
    using to_double_eval [of "350 / 5000" "- 4", OF _ _ _ _ refl] by (simp add: rounding)
  have b: "to_double (1261007895663739 / 18014398509481984 * 100)
           = Fin (7881299347898369 / 1125899906842624)"
    using to_double_eval [of "1261007895663739 / 18014398509481984 * 100" 2, OF _ _ _ _ refl]
    by (simp add: rounding)
  from fillPercent_eval [OF _ a b] show ?thesis by simp
qed



section \<open>Stock dashboard: classification and counts\<close>

text \<open>
  Claim C1. Every stock row is classified Critical exactly when its actual quantity is
  at most its reorder level, and Healthy otherwise; a row whose quantity equals its
  reorder level is Critical. This holds for the badge and the border class of the row's
  card, and for the two counters of the loop, which count the rows with
  \<open>actual_qty \<le> reorder_level\<close> and the remaining rows. For a non-empty list the
  container shows one such card per row, in order.
\<close>

theorem classification_inclusive:
  "(badge_text (render_card fmt i) = ''Critical'' \<longleftrightarrow> actual_qty i \<le> reorder_level i)
   \<and> (badge_text (render_card fmt i) = ''Healthy'' \<longleftrightarrow> \<not> actual_qty i \<le> reorder_level i)
   \<and> (card_class (render_card fmt i) = ''critical'' \<longleftrightarrow> actual_qty i \<le> reorder_level i)
   \<and> (card_class (render_card fmt i) = ''safe'' \<longleftrightarrow> \<not> actual_qty i \<le> reorder_level i)
   \<and> (actual_qty i = reorder_level i \<longrightarrow>
        badge_text (render_card fmt i) = ''Critical''
      \<and> critical (tally t i) = critical t + 1 \<and> healthy (tally t i) = healthy t)
   \<and> critical (forEach_tally data) = length (filter (\<lambda>i. actual_qty i \<le> reorder_level i) data)
   \<and> healthy (forEach_tally data)
       = length (filter (\<lambda>i. \<not> actual_qty i \<le> reorder_level i) data)
   \<and> (data \<noteq> [] \<longrightarrow>
        stock_cards_container (render_data fmt data d) = CardGrid (map (render_card fmt) data))"
  by (simp add: render_data_nonempty forEach_tally_def critical_foldl healthy_foldl totals0_def
        badge_text_render_card card_class_render_card tally_def Let_def split: option.splits)

theorem classification_inclusive_witness:
  "actual_qty (ex_rows ! 1) = 50 \<and> reorder_level (ex_rows ! 1) = 50
   \<and> badge_text (render_card fmt0 (ex_rows ! 1)) = ''Critical''
   \<and> critical (tally totals0 (ex_rows ! 1)) = 1
   \<and> ex_rows \<noteq> []
   \<and> (\<exists>cs. stock_cards_container (render_data fmt0 ex_rows dashboard0) = CardGrid cs
          \<and> badge_text (cs ! 1) = ''Critical'' \<and> badge_text (cs ! 0) = ''Healthy'')
   \<and> critical (forEach_tally ex_rows) = 1"
  using classification_inclusive [of fmt0 "ex_rows ! 1" totals0 ex_rows dashboard0]
  by (simp add: ex_rows_def totals0_def badge_text_render_card)

text \<open>
  Claim C2. For every list of rows the loop's two counters add up to the number of rows,
  which is the total. For a non-empty list these three numbers are what \<open>render_data\<close>
  writes into the tiles Total Items, Reorder Required and Healthy Items.
\<close>

theorem aggregate_counts_consistent:
  "critical (forEach_tally data) + healthy (forEach_tally data) = length data
   \<and> (data \<noteq> [] \<longrightarrow>
        total_items (render_data fmt data d) = Number_toString fmt (of_nat (length data))
      \<and> critical_items (render_data fmt data d)
          = Number_toString fmt (of_nat (critical (forEach_tally data)))
      \<and> healthy_items (render_data fmt data d)
          = Number_toString fmt (of_nat (healthy (forEach_tally data))))"
  by (simp add: render_data_nonempty forEach_tally_def critical_foldl healthy_foldl totals0_def
        filter_split_length)

theorem aggregate_counts_consistent_witness:
  "ex_rows \<noteq> []
   \<and> critical (forEach_tally ex_rows) + healthy (forEach_tally ex_rows) = length ex_rows
   \<and> total_items (render_data fmt0 ex_rows dashboard0) = ''2''
   \<and> critical_items (render_data fmt0 ex_rows dashboard0) = ''1''
   \<and> healthy_items (render_data fmt0 ex_rows dashboard0) = ''1''"
  using aggregate_counts_consistent [of ex_rows fmt0 dashboard0]
  by (simp add: critical_ex_rows healthy_ex_rows ex_rows_length ex_rows_nonempty
        Number_toString_def digits)

text \<open>
  Claim C10. The cards and the counters use the same test. Among the cards built from
  a list of rows, the number badged Critical (and the number with the critical border)
  is the loop's critical counter, and the number badged Healthy (and with the safe
  border) is its healthy counter. For a non-empty list these cards are the ones shown,
  and the two tiles show the numbers of cards so badged.
\<close>

theorem badges_agree_with_counts:
  "length (filter (\<lambda>c. badge_text c = ''Critical'') (map (render_card fmt) data))
     = critical (forEach_tally data)
   \<and> length (filter (\<lambda>c. badge_text c = ''Healthy'') (map (render_card fmt) data))
     = healthy (forEach_tally data)
   \<and> length (filter (\<lambda>c. card_class c = ''critical'') (map (render_card fmt) data))
     = critical (forEach_tally data)
   \<and> length (filter (\<lambda>c. card_class c = ''safe'') (map (render_card fmt) data))
     = healthy (forEach_tally data)
   \<and> (data \<noteq> [] \<longrightarrow>
        stock_cards_container (render_data fmt data d) = CardGrid (map (render_card fmt) data)
      \<and> critical_items (render_data fmt data d)
          = Number_toString fmt (of_nat (length (filter (\<lambda>c. badge_text c = ''Critical'')
                                                  (map (render_card fmt) data))))
      \<and> healthy_items (render_data fmt data d)
          = Number_toString fmt (of_nat (length (filter (\<lambda>c. badge_text c = ''Healthy'')
                                                  (map (render_card fmt) data)))))"
  by (simp add: render_data_nonempty forEach_tally_def critical_foldl healthy_foldl totals0_def
        filter_map comp_def badge_text_render_card card_class_render_card)

theorem badges_agree_with_counts_witness:
  "ex_rows \<noteq> []
   \<and> (\<exists>cs. stock_cards_container (render_data fmt0 ex_rows dashboard0) = CardGrid cs
          \<and> length (filter (\<lambda>c. badge_text c = ''Critical'') cs) = 1
          \<and> length (filter (\<lambda>c. badge_text c = ''Healthy'') cs) = 1)
   \<and> critical_items (render_data fmt0 ex_rows dashboard0) = ''1''
   \<and> healthy_items (render_data fmt0 ex_rows dashboard0) = ''1''"
  using badges_agree_with_counts [of fmt0 ex_rows dashboard0]
  by (simp add: critical_ex_rows healthy_ex_rows ex_rows_nonempty Number_toString_def digits)

section \<open>Stock dashboard: average days\<close>



section \<open>Stock dashboard: empty result, warehouse label, remote call\<close>

text \<open>
  Claim C6. Called with an empty list, \<open>render_data\<close> replaces the card container with
  the message "No stock found." and changes nothing else: the four tiles keep the text
  they had. A response without a message is rendered as the empty list.
\<close>

theorem empty_rows_keep_tiles:
  "render_data fmt [] d = d\<lparr>stock_cards_container := EmptyState ''No stock found.''\<rparr>
   \<and> stock_cards_container (render_data fmt [] d) = EmptyState ''No stock found.''
   \<and> total_items (render_data fmt [] d) = total_items d
   \<and> critical_items (render_data fmt [] d) = critical_items d
   \<and> healthy_items (render_data fmt [] d) = healthy_items d
   \<and> avg_days (render_data fmt [] d) = avg_days d
   \<and> callback fmt None d = render_data fmt [] d"
  by (simp add: render_data_def callback_def)

text \<open>
  Claim C8. A card shows the label "Multiple" when the row's warehouse is missing or
  the empty string, and the warehouse itself when it is a non-empty string. For a
  non-empty list the container shows these cards.
\<close>

theorem warehouse_default:
  "(warehouse i = None \<or> warehouse i = Some '''' \<longrightarrow>
      warehouse_text (render_card fmt i) = ''Multiple'')
   \<and> (\<forall>w. warehouse i = Some w \<and> w \<noteq> '''' \<longrightarrow> warehouse_text (render_card fmt i) = w)
   \<and> (data \<noteq> [] \<longrightarrow>
        stock_cards_container (render_data fmt data d) = CardGrid (map (render_card fmt) data))"
  by (auto simp add: render_data_nonempty render_card_def Let_def)

theorem warehouse_default_witness:
  "warehouse (ex_rows ! 0) = None
   \<and> warehouse_text (render_card fmt0 (ex_rows ! 0)) = ''Multiple''
   \<and> warehouse (ex_rows ! 1) = Some ''Stores'' \<and> ''Stores'' \<noteq> ''''
   \<and> warehouse_text (render_card fmt0 (ex_rows ! 1)) = ''Stores''
   \<and> ex_rows \<noteq> []
   \<and> stock_cards_container (render_data fmt0 ex_rows dashboard0)
       = CardGrid (map (render_card fmt0) ex_rows)"
  using warehouse_default [of "ex_rows ! 0" fmt0 ex_rows dashboard0]
        warehouse_default [of "ex_rows ! 1" fmt0 ex_rows dashboard0]
  by (simp add: ex_rows_def)

text \<open>
  Claim C9. Whatever the five controls hold, a refresh issues exactly one remote call,
  and its arguments are the five names \<open>warehouse\<close>, \<open>item_code\<close>, \<open>item_group\<close>,
  \<open>stock_status\<close>, \<open>sort_order\<close>, each with the current value of its control. A
  control without a value still has its name among the arguments.
\<close>

theorem refresh_passes_five_filters:
  "snd (refresh_data p d) =
     [\<lparr>method_name = ''dairy.dairy.page.stock_dashboard.stock_dashboard.get_stock_data'',
       args = [(''warehouse'', wh_f p), (''item_code'', item_f p), (''item_group'', group_f p),
               (''stock_status'', status_f p), (''sort_order'', sort_f p)]\<rparr>]
   \<and> map (\<lambda>c. map fst (args c)) (snd (refresh_data p d))
       = [[''warehouse'', ''item_code'', ''item_group'', ''stock_status'', ''sort_order'']]"
  by (simp add: refresh_data_def)

section \<open>Tank gauge\<close>

text \<open>
  Claim C4. For a reading with weight at least 0 and a capacity above 0, the fill
  percent that the script computes, \<open>weight / maxCapacity * 100\<close> in JavaScript numbers
  and then limited to 100, is a finite number between 0 and 100, and the gauge height
  is set to its text followed by a percent sign. A weight of 6000 with capacity 5000
  gives 100.
\<close>

theorem fill_percent_clamped:
  "0 \<le> weight r \<Longrightarrow> 0 < maxCapacity \<Longrightarrow>
   (\<exists>p. fillPercent (weight r) maxCapacity = Fin p \<and> 0 \<le> p \<and> p \<le> 100
        \<and> liquid_height (updateTankGraphic fmt deviceId maxCapacity (r # rs) g)
            = Number_toString fmt p @ ''%'')
   \<and> fillPercent 6000 5000 = Fin 100"
proof -
  assume w: "0 \<le> weight r" and c: "0 < maxCapacity"
  from fillPercent_range [OF w c] obtain p
    where p: "fillPercent (weight r) maxCapacity = Fin p" "0 \<le> p" "p \<le> 100"
    by blast
  have h: "liquid_height (updateTankGraphic fmt deviceId maxCapacity (r # rs) g)
            = Number_toString fmt p @ ''%''"
    by (simp add: updateTankGraphic_reading p(1))
  from p h fillPercent_6000 show ?thesis by blast
qed

theorem fill_percent_clamped_witness:
  "(0::rat) \<le> weight \<lparr>weight = 6000\<rparr> \<and> (0::rat) < 5000
   \<and> fillPercent 6000 5000 = Fin 100
   \<and> liquid_height (updateTankGraphic fmt0 ''MCOMWIFI051'' 5000 [\<lparr>weight = 6000\<rparr>] gauge0)
       = ''100%''
   \<and> (0::rat) \<le> weight \<lparr>weight = 350\<rparr>
   \<and> fillPercent 350 5000 = Fin (7 + 1 / 2 ^ 50)"
  using fill_percent_clamped [of "\<lparr>weight = 6000\<rparr>" 5000 fmt0 "''MCOMWIFI051''" "[]" gauge0]
        fill_percent_clamped [of "\<lparr>weight = 350\<rparr>" 5000 fmt0 "''MCOMWIFI051''" "[]" gauge0]
  by (simp add: fillPercent_6000 fillPercent_350 Number_toString_def digits)

text \<open>
  Claim C5. The fill color is the warning color \<open>#f44336\<close> exactly when the fill
  percent is below 10, and the normal color \<open>#2196F3\<close> otherwise, so in particular
  whenever the fill percent is 10 or more; at exactly 10 it is the normal color. This
  color, computed from the clamped fill percent, is what a reading sets as the gauge's
  background.
\<close>

theorem fill_color_threshold:
  "(fill_color p = ''#f44336'' \<longleftrightarrow> js_lt p 10)
   \<and> (fill_color p = ''#2196F3'' \<longleftrightarrow> \<not> js_lt p 10)
   \<and> (js_ge p 10 \<longrightarrow> fill_color p = ''#2196F3'')
   \<and> fill_color (Fin 10) = ''#2196F3''
   \<and> liquid_color (updateTankGraphic fmt deviceId maxCapacity (r # rs) g)
       = fill_color (fillPercent (weight r) maxCapacity)"
proof -
  have "js_ge p 10 \<Longrightarrow> \<not> js_lt p 10"
    by (cases p) simp_all
  then show ?thesis
    by (auto simp add: fill_color_def updateTankGraphic_reading)
qed

theorem fill_color_threshold_witness:
  "js_ge (fillPercent 500 5000) 10
   \<and> fillPercent 500 5000 = Fin 10
   \<and> liquid_color (updateTankGraphic fmt0 ''MCOMWIFI051'' 5000 [\<lparr>weight = 500\<rparr>] gauge0)
       = ''#2196F3''
   \<and> js_lt (fillPercent 499 5000) 10
   \<and> liquid_color (updateTankGraphic fmt0 ''MCOMWIFI051'' 5000 [\<lparr>weight = 499\<rparr>] gauge0)
       = ''#f44336''"
  using fill_color_threshold [of "fillPercent 500 5000" fmt0 "''MCOMWIFI051''" 5000
          "\<lparr>weight = 500\<rparr>" "[]" gauge0]
        fill_color_threshold [of "fillPercent 499 5000" fmt0 "''MCOMWIFI051''" 5000
          "\<lparr>weight = 499\<rparr>" "[]" gauge0]
  by (simp add: fillPercent_500 fillPercent_499 updateTankGraphic_reading fill_color_def)

text \<open>
  Claim C7. When the query returns no reading, \<open>updateTankGraphic\<close> changes nothing:
  the gauge height, the weight text, the device label and the fill color all keep the
  values they had.
\<close>

theorem no_reading_no_update:
  "updateTankGraphic fmt deviceId maxCapacity [] g = g
   \<and> liquid_height (updateTankGraphic fmt deviceId maxCapacity [] g) = liquid_height g
   \<and> weight_display (updateTankGraphic fmt deviceId maxCapacity [] g) = weight_display g
   \<and> device_label (updateTankGraphic fmt deviceId maxCapacity [] g) = device_label g
   \<and> liquid_color (updateTankGraphic fmt deviceId maxCapacity [] g) = liquid_color g"
  by (simp add: updateTankGraphic_def)

end
